theory Spec2Isabelle
  imports Main "HOL-Library.AList" "HOL-Library.Log_Nat"
begin

section \<open>Data model (src/types/index.ts)\<close>

text \<open>
  \<^verbatim>\<open>Flat = { [key: string]: string }\<close> maps a relative path to a content digest. It is
  an association list in insertion order: \<^verbatim>\<open>flat[k] = v\<close> is \<open>AList.update k v\<close>,
  \<^verbatim>\<open>delete flat[k]\<close> is \<open>AList.delete k\<close>, \<^verbatim>\<open>k in flat\<close> is \<open>map_of flat k \<noteq> None\<close>,
  \<^verbatim>\<open>Object.keys\<close> is \<open>map fst\<close> and \<^verbatim>\<open>Object.values\<close> is \<open>map snd\<close>.
  Path keys are file paths, never names of \<^verbatim>\<open>Object.prototype\<close>.
\<close>

type_synonym Flat = "(string \<times> string) list"

record SnapshotChanges =
  added :: Flat
  modified :: Flat
  deleted :: "string list"

text \<open>
  The field \<^verbatim>\<open>id\<close> of the source is \<open>snap_id\<close>; \<^verbatim>\<open>number | null\<close> is \<open>int option\<close>.
  An id is a JavaScript number whose value is an integer, of a magnitude below
  \<open>10 ^ 21\<close>, where the file name \<^verbatim>\<open>${id}.json\<close> is its decimal numeral. File contents,
  digests and paths are strings of bytes.
\<close>

record Snapshot =
  snap_id :: int
  date :: string
  parent :: "int option"
  changes :: SnapshotChanges

text \<open>
  The database directory. \<open>snapshots\<close> is \<^verbatim>\<open>SNAP_DIR\<close>: the file \<^verbatim>\<open><id>.json\<close> with the
  record it parses to, and no other file. \<open>blobs\<close> is \<^verbatim>\<open>BLOBS_DIR\<close>: each subdirectory
  with its files and their bytes; the blob of a digest lies in the subdirectory named by
  the digest's first two characters, in the file named by the rest (SHA-256 digests have
  64 characters).
\<close>

record store =
  snapshots :: "(int \<times> Snapshot) list"
  blobs :: "(string \<times> (string \<times> string) list) list"

text \<open>A directory tree on disk: the scanned directory and the restore target.\<close>

datatype node = File string | Dir "(string \<times> node) list"

type_synonym dir = "(string \<times> node) list"

text \<open>
  What the source throws: the \<^verbatim>\<open>Error\<close> of \<^verbatim>\<open>pruneSnapshot\<close>, the \<^verbatim>\<open>Error\<close> of
  \<^verbatim>\<open>loadSnapshotWithCache\<close>, the \<^verbatim>\<open>SyntaxError\<close> of \<^verbatim>\<open>JSON.parse\<close> and the errors of the
  \<^verbatim>\<open>fs\<close> calls.
\<close>

datatype error =
  SnapshotDoesNotExist int | FailedToLoadSnapshot int | SyntaxError | ENOENT | EISDIR | ENOTDIR

section \<open>The synchronous FileService\<close>

text \<open>A \<^verbatim>\<open>number | null\<close> in a condition: \<^verbatim>\<open>null\<close> and \<^verbatim>\<open>0\<close> are falsy.\<close>

definition truthy :: "int option \<Rightarrow> bool" where
  "truthy x = (case x of None \<Rightarrow> False | Some n \<Rightarrow> n \<noteq> 0)"

text \<open>
  Numbers are float64: \<^verbatim>\<open>lastId + 1\<close> and \<^verbatim>\<open>id + 1\<close> are the exact sum rounded to the
  nearest float64, a tie going to the even significand of 53 bits. \<open>float64\<close> is that
  rounding of an integer (\<open>bitlen\<close> is the number of binary digits of a magnitude) and
  \<open>addOne\<close> the \<^verbatim>\<open>+ 1\<close> of the source.
\<close>

definition float64 :: "int \<Rightarrow> int" where
  "float64 y =
     (if \<bar>y\<bar> < 2 ^ 53 then y
      else
        let q = 2 ^ nat (bitlen \<bar>y\<bar> - 53);
            m = \<bar>y\<bar> div q;
            r = \<bar>y\<bar> mod q
        in sgn y * ((if q < 2 * r \<or> (2 * r = q \<and> odd m) then m + 1 else m) * q))"

definition addOne :: "int \<Rightarrow> int" where
  "addOne x = float64 (x + 1)"

definition blobPath :: "string \<Rightarrow> string \<times> string" where
  "blobPath hash = (take 2 hash, drop 2 hash)"

definition readBlob :: "store \<Rightarrow> string \<Rightarrow> string option" where
  "readBlob st hash =
     (case map_of (blobs st) (fst (blobPath hash)) of
        None \<Rightarrow> None
      | Some files \<Rightarrow> map_of files (snd (blobPath hash)))"

definition writeBlob :: "store \<Rightarrow> string \<Rightarrow> string \<Rightarrow> store" where
  "writeBlob st hash content =
     (let subdir = fst (blobPath hash);
          files = (case map_of (blobs st) subdir of None \<Rightarrow> [] | Some fs \<Rightarrow> fs)
      in st\<lparr>blobs := AList.update subdir (AList.update (snd (blobPath hash)) content files) (blobs st)\<rparr>)"

text \<open>
  \<^verbatim>\<open>hashContent\<close> is SHA-256 of Node's \<^verbatim>\<open>crypto\<close>, hex encoded. It is the parameter \<open>h\<close>
  of every function that hashes.
\<close>

definition storeBlob :: "(string \<Rightarrow> string) \<Rightarrow> store \<Rightarrow> string \<Rightarrow> string \<times> store" where
  "storeBlob h st content =
     (let hash = h content
      in if readBlob st hash = None then (hash, writeBlob st hash content) else (hash, st))"

definition loadContent :: "store \<Rightarrow> string \<Rightarrow> error + string" where
  "loadContent st hash = (case readBlob st hash of None \<Rightarrow> Inl ENOENT | Some content \<Rightarrow> Inr content)"

definition relPath :: "string \<Rightarrow> string \<Rightarrow> string" where
  "relPath prefix entry = (if prefix = [] then entry else prefix @ ''/'' @ entry)"

text \<open>\<^verbatim>\<open>{ ...flat, ...sub }\<close> and \<^verbatim>\<open>Object.assign(flat, sub)\<close>.\<close>

definition assign :: "Flat \<Rightarrow> Flat \<Rightarrow> Flat" where
  "assign flat sub = fold (\<lambda>(k, v). AList.update k v) sub flat"

function flattenEntries :: "(string \<Rightarrow> string) \<Rightarrow> string \<Rightarrow> dir \<Rightarrow> Flat \<Rightarrow> Flat" where
  "flattenEntries h prefix [] flat = flat"
| "flattenEntries h prefix ((entry, File content) # es) flat =
     flattenEntries h prefix es (AList.update (relPath prefix entry) (h content) flat)"
| "flattenEntries h prefix ((entry, Dir sub) # es) flat =
     flattenEntries h prefix es (assign flat (flattenEntries h (relPath prefix entry) sub []))"
  by pat_completeness auto
termination
  by (relation "measure (\<lambda>(h, prefix, es, flat). size_list (size_prod (\<lambda>_. 0) size) es)") auto

definition flattenDir :: "(string \<Rightarrow> string) \<Rightarrow> dir \<Rightarrow> Flat" where
  "flattenDir h d = flattenEntries h [] d []"

definition lastSnapshotId :: "store \<Rightarrow> int option" where
  "lastSnapshotId st =
     (case map fst (snapshots st) of [] \<Rightarrow> None | f # fs \<Rightarrow> Some (fold max fs f))"

text \<open>The record \<^verbatim>\<open>loadSnapshot\<close> returns when the file does not exist.\<close>

definition sentinel :: "int \<Rightarrow> Snapshot" where
  "sentinel i =
     \<lparr>snap_id = i, date = [], parent = None,
      changes = \<lparr>added = [], modified = [], deleted = []\<rparr>\<rparr>"

definition loadSnapshot :: "store \<Rightarrow> int \<Rightarrow> Snapshot" where
  "loadSnapshot st i = (case map_of (snapshots st) i of None \<Rightarrow> sentinel i | Some s \<Rightarrow> s)"

definition saveSnapshot :: "store \<Rightarrow> Snapshot \<Rightarrow> store" where
  "saveSnapshot st snapshot =
     st\<lparr>snapshots := AList.update (snap_id snapshot) snapshot (snapshots st)\<rparr>"

text \<open>
  \<^verbatim>\<open>reconstructSnapshot\<close> calls itself on the parent. Nothing bounds the chain of parents
  of a store, so the first argument bounds the depth of the calls; \<open>None\<close> is a call
  that has not returned within it.
\<close>

definition applyChanges :: "SnapshotChanges \<Rightarrow> Flat \<Rightarrow> Flat" where
  "applyChanges c flat =
     fold AList.delete (deleted c) (assign (assign flat (added c)) (modified c))"

fun reconstructSnapshot :: "nat \<Rightarrow> store \<Rightarrow> int \<Rightarrow> Flat option" where
  "reconstructSnapshot 0 st i = None"
| "reconstructSnapshot (Suc n) st i =
     (let snap = loadSnapshot st i
      in case (if truthy (parent snap) then reconstructSnapshot n st (the (parent snap))
               else Some [])
         of None \<Rightarrow> None
          | Some flat \<Rightarrow> Some (applyChanges (changes snap) flat))"

text \<open>
  \<^verbatim>\<open>pruneSnapshot\<close>. The result is the error thrown, if any, and the store as the call
  leaves it.
\<close>

definition listSnapshots :: "store \<Rightarrow> Snapshot list" where
  "listSnapshots st =
     sort_key snap_id (map (\<lambda>i. (loadSnapshot st i)\<lparr>snap_id := i\<rparr>) (map fst (snapshots st)))"

definition blobsInSnapshot :: "Snapshot \<Rightarrow> string list" where
  "blobsInSnapshot snap = map snd (added (changes snap)) @ map snd (modified (changes snap))"

definition sweepBlobs :: "string list \<Rightarrow> store \<Rightarrow> store" where
  "sweepBlobs usedBlobs st =
     st\<lparr>blobs :=
          filter (\<lambda>(subdir, files). files \<noteq> [])
            (map (\<lambda>(subdir, files).
                    (subdir, filter (\<lambda>(file, content). subdir @ file \<in> set usedBlobs) files))
               (blobs st))\<rparr>"

definition pruneSnapshot :: "store \<Rightarrow> int \<Rightarrow> error option \<times> store" where
  "pruneSnapshot st i =
     (let snapshot = loadSnapshot st i
      in if date snapshot = [] then (Some (SnapshotDoesNotExist i), st)
         else
           let nextSnapshot = loadSnapshot st (addOne i);
               st1 = (if parent nextSnapshot = Some i
                      then saveSnapshot st (nextSnapshot\<lparr>parent := parent snapshot\<rparr>)
                      else st);
               st2 = st1\<lparr>snapshots := AList.delete i (snapshots st1)\<rparr>;
               usedBlobs = concat (map blobsInSnapshot (listSnapshots st2))
           in (None, sweepBlobs usedBlobs st2))"

text \<open>Sizes. \<^verbatim>\<open>fs.statSync\<close> throws when the blob's file does not exist.\<close>

definition dbSize :: "store \<Rightarrow> nat" where
  "dbSize st =
     sum_list (map (\<lambda>(sub, files). sum_list (map (\<lambda>(file, content). length content) files))
                 (blobs st))"

definition blobSize :: "store \<Rightarrow> string \<Rightarrow> error + nat" where
  "blobSize st hash =
     (case readBlob st hash of None \<Rightarrow> Inl ENOENT | Some content \<Rightarrow> Inr (length content))"

fun sumBlobSizes :: "store \<Rightarrow> string list \<Rightarrow> nat \<Rightarrow> error + nat" where
  "sumBlobSizes st [] tot = Inr tot"
| "sumBlobSizes st (key # keys) tot =
     (case blobSize st key of
        Inl e \<Rightarrow> Inl e
      | Inr sz \<Rightarrow> sumBlobSizes st keys (tot + sz))"

definition logicalSize :: "nat \<Rightarrow> store \<Rightarrow> int \<Rightarrow> (error + nat) option" where
  "logicalSize n st snapshotId =
     (case reconstructSnapshot n st snapshotId of
        None \<Rightarrow> None
      | Some flat \<Rightarrow> Some (sumBlobSizes st (map snd flat) 0))"

text \<open>
  The \<^verbatim>\<open>while (current)\<close> loop of \<^verbatim>\<open>seenBefore\<close>; the first argument bounds its
  iterations, and \<open>None\<close> is a loop that has not ended within them.
\<close>

fun seenBeforeLoop :: "nat \<Rightarrow> store \<Rightarrow> string \<Rightarrow> int option \<Rightarrow> bool option" where
  "seenBeforeLoop 0 st hash current = None"
| "seenBeforeLoop (Suc n) st hash current =
     (if truthy current
      then (let p = loadSnapshot st (the current)
            in if hash \<in> set (blobsInSnapshot p) then Some True
               else seenBeforeLoop n st hash (parent p))
      else Some False)"

definition seenBefore :: "nat \<Rightarrow> store \<Rightarrow> string \<Rightarrow> Snapshot \<Rightarrow> bool option" where
  "seenBefore n st hash snapshot = seenBeforeLoop n st hash (parent snapshot)"

fun physicalSizeLoop ::
  "nat \<Rightarrow> store \<Rightarrow> Snapshot \<Rightarrow> string list \<Rightarrow> nat \<Rightarrow> (error + nat) option" where
  "physicalSizeLoop n st snap [] tot = Some (Inr tot)"
| "physicalSizeLoop n st snap (hash # hashes) tot =
     (case seenBefore n st hash snap of
        None \<Rightarrow> None
      | Some True \<Rightarrow> physicalSizeLoop n st snap hashes tot
      | Some False \<Rightarrow>
          (case blobSize st hash of
             Inl e \<Rightarrow> Some (Inl e)
           | Inr sz \<Rightarrow> physicalSizeLoop n st snap hashes (tot + sz)))"

definition physicalSize :: "nat \<Rightarrow> store \<Rightarrow> int \<Rightarrow> (error + nat) option" where
  "physicalSize n st snapshotId =
     (let snap = loadSnapshot st snapshotId
      in physicalSizeLoop n st snap (blobsInSnapshot snap) 0)"

text \<open>
  Files by path. \<open>splitPath\<close> gives the segments of a path between its \<^verbatim>\<open>/\<close>;
  \<open>readFileAt\<close> is \<^verbatim>\<open>fs.readFileSync(path.join(dirPath, pathKey))\<close> and \<open>writeFileAt\<close> is
  \<^verbatim>\<open>fs.mkdirSync(path.dirname(outPath), { recursive: true })\<close> followed by
  \<^verbatim>\<open>fs.writeFileSync(outPath, content)\<close>, on the tree under the directory.
\<close>

fun splitPath :: "string \<Rightarrow> string list" where
  "splitPath [] = [[]]"
| "splitPath (c # cs) =
     (if c = CHR ''/'' then [] # splitPath cs
      else (case splitPath cs of [] \<Rightarrow> [[c]] | seg # segs \<Rightarrow> (c # seg) # segs))"

fun readFileAt :: "dir \<Rightarrow> string list \<Rightarrow> error + string" where
  "readFileAt d [] = Inl EISDIR"
| "readFileAt d [name] =
     (case map_of d name of
        None \<Rightarrow> Inl ENOENT
      | Some (File content) \<Rightarrow> Inr content
      | Some (Dir sub) \<Rightarrow> Inl EISDIR)"
| "readFileAt d (name # rest) =
     (case map_of d name of
        None \<Rightarrow> Inl ENOENT
      | Some (File content) \<Rightarrow> Inl ENOTDIR
      | Some (Dir sub) \<Rightarrow> readFileAt sub rest)"

fun writeFileAt :: "dir \<Rightarrow> string list \<Rightarrow> string \<Rightarrow> error + dir" where
  "writeFileAt d [] content = Inl EISDIR"
| "writeFileAt d [name] content =
     (case map_of d name of
        Some (Dir sub) \<Rightarrow> Inl EISDIR
      | _ \<Rightarrow> Inr (AList.update name (File content) d))"
| "writeFileAt d (name # rest) content =
     (case map_of d name of
        Some (File old) \<Rightarrow> Inl ENOTDIR
      | Some (Dir sub) \<Rightarrow>
          (case writeFileAt sub rest content of
             Inl e \<Rightarrow> Inl e
           | Inr sub' \<Rightarrow> Inr (AList.update name (Dir sub') d))
      | None \<Rightarrow>
          (case writeFileAt [] rest content of
             Inl e \<Rightarrow> Inl e
           | Inr sub' \<Rightarrow> Inr (AList.update name (Dir sub') d)))"

fun restoreEntries :: "store \<Rightarrow> Flat \<Rightarrow> dir \<Rightarrow> error + dir" where
  "restoreEntries st [] target = Inr target"
| "restoreEntries st ((rel, hash) # rest) target =
     (case loadContent st hash of
        Inl e \<Rightarrow> Inl e
      | Inr content \<Rightarrow>
          (case writeFileAt target (splitPath rel) content of
             Inl e \<Rightarrow> Inl e
           | Inr target' \<Rightarrow> restoreEntries st rest target'))"

definition restoreSnapshot :: "nat \<Rightarrow> store \<Rightarrow> int \<Rightarrow> dir \<Rightarrow> (error + dir) option" where
  "restoreSnapshot n st i targetDir =
     (case reconstructSnapshot n st i of
        None \<Rightarrow> None
      | Some flat \<Rightarrow> Some (restoreEntries st flat targetDir))"

text \<open>
  \<^verbatim>\<open>createSnapshot\<close>. The loop over \<^verbatim>\<open>Object.entries(flat)\<close> reads each file again, stores
  its blob and files the path under added or modified; \<open>now\<close> is
  \<^verbatim>\<open>new Date().toISOString()\<close>.
\<close>

fun trackAddedModified ::
  "(string \<Rightarrow> string) \<Rightarrow> dir \<Rightarrow> Flat \<Rightarrow> Flat \<Rightarrow> store \<Rightarrow> SnapshotChanges
     \<Rightarrow> error + SnapshotChanges \<times> store" where
  "trackAddedModified h dirPath parentFlat [] st c = Inr (c, st)"
| "trackAddedModified h dirPath parentFlat ((pathKey, content) # rest) st c =
     (case readFileAt dirPath (splitPath pathKey) of
        Inl e \<Rightarrow> Inl e
      | Inr bytes \<Rightarrow>
          (let (hash, st') = storeBlob h st bytes
           in case map_of parentFlat pathKey of
                None \<Rightarrow>
                  trackAddedModified h dirPath parentFlat rest st'
                    (c\<lparr>added := AList.update pathKey hash (added c)\<rparr>)
              | Some parentHash \<Rightarrow>
                  (let oldHash = h parentHash
                   in if oldHash \<noteq> hash
                      then trackAddedModified h dirPath parentFlat rest st'
                             (c\<lparr>modified := AList.update pathKey hash (modified c)\<rparr>)
                      else trackAddedModified h dirPath parentFlat rest st' c)))"

definition trackDeleted :: "Flat \<Rightarrow> Flat \<Rightarrow> string list" where
  "trackDeleted parentFlat flat = filter (\<lambda>pathKey. map_of flat pathKey = None) (map fst parentFlat)"

definition newSnapshotId :: "int option \<Rightarrow> int" where
  "newSnapshotId lastId = (if truthy lastId then addOne (the lastId) else 1)"

definition createSnapshot ::
  "(string \<Rightarrow> string) \<Rightarrow> string \<Rightarrow> nat \<Rightarrow> store \<Rightarrow> dir \<Rightarrow> (error + Snapshot \<times> store) option" where
  "createSnapshot h now n st dirPath =
     (let flat = flattenDir h dirPath;
          lastId = lastSnapshotId st
      in case (if truthy lastId
               then (let p = loadSnapshot st (the lastId)
                     in map_option (Pair (Some p)) (reconstructSnapshot n st (snap_id p)))
               else Some (None, []))
         of None \<Rightarrow> None
          | Some (parentSnap, parentFlat) \<Rightarrow>
              (case trackAddedModified h dirPath parentFlat flat st
                      \<lparr>added = [], modified = [], deleted = []\<rparr>
               of Inl e \<Rightarrow> Some (Inl e)
                | Inr (c, st') \<Rightarrow>
                    (let snapshot =
                           \<lparr>snap_id = newSnapshotId lastId, date = now,
                            parent = (case parentSnap of
                                        None \<Rightarrow> None
                                      | Some p \<Rightarrow> if snap_id p \<noteq> 0 then Some (snap_id p) else None),
                            changes = c\<lparr>deleted := trackDeleted parentFlat flat\<rparr>\<rparr>
                     in Some (Inr (snapshot, saveSnapshot st' snapshot)))))"

section \<open>The asynchronous FileService\<close>

text \<open>
  The asynchronous service keeps caches in the instance. Its \<^verbatim>\<open>await\<close>s are taken in
  program order: one call runs to its end before the next one starts, and the callbacks
  of a \<^verbatim>\<open>Promise.all\<close> run in the order of their list. The one write that is not awaited,
  in \<^verbatim>\<open>pruneSnapshot\<close>, is modelled with both of its outcomes.
  \<^verbatim>\<open>lastSnapshotId\<close>, \<^verbatim>\<open>loadSnapshot\<close>, \<^verbatim>\<open>saveSnapshot\<close>, \<^verbatim>\<open>blobPath\<close> and
  \<^verbatim>\<open>blobsInSnapshot\<close> have the bodies of the synchronous service and are the functions
  above, on \<open>disk\<close>.
\<close>

record service =
  disk :: store
  snapshotCache :: "(int \<times> Snapshot) list"
  flatCache :: "(int \<times> Flat) list"
  blobSizeCache :: "(string \<times> nat) list"

text \<open>\<^verbatim>\<open>FileWithContent\<close>: the path, the content and the hash of a scanned file.\<close>

type_synonym FileWithContent = "string \<times> string \<times> string"

text \<open>\<^verbatim>\<open>storeBlob\<close> writes with the flag \<^verbatim>\<open>wx\<close> and returns on \<^verbatim>\<open>EEXIST\<close>.\<close>

definition storeBlob_async :: "(string \<Rightarrow> string) \<Rightarrow> store \<Rightarrow> string \<Rightarrow> string \<times> store" where
  "storeBlob_async h st content =
     (let hash = h content
      in (hash, if readBlob st hash = None then writeBlob st hash content else st))"

function flattenEntriesWithContent ::
  "(string \<Rightarrow> string) \<Rightarrow> string \<Rightarrow> dir \<Rightarrow> Flat \<times> FileWithContent list
     \<Rightarrow> Flat \<times> FileWithContent list" where
  "flattenEntriesWithContent h prefix [] acc = acc"
| "flattenEntriesWithContent h prefix ((entry, File content) # es) (flat, filesWithContent) =
     flattenEntriesWithContent h prefix es
       (AList.update (relPath prefix entry) (h content) flat,
        filesWithContent @ [(relPath prefix entry, content, h content)])"
| "flattenEntriesWithContent h prefix ((entry, Dir sub) # es) (flat, filesWithContent) =
     flattenEntriesWithContent h prefix es
       (assign flat (fst (flattenEntriesWithContent h (relPath prefix entry) sub ([], []))),
        filesWithContent @ snd (flattenEntriesWithContent h (relPath prefix entry) sub ([], [])))"
  by pat_completeness auto
termination
  by (relation "measure (\<lambda>(h, prefix, es, acc). size_list (size_prod (\<lambda>_. 0) size) es)") auto

definition flattenDirWithContent ::
  "(string \<Rightarrow> string) \<Rightarrow> dir \<Rightarrow> Flat \<times> FileWithContent list" where
  "flattenDirWithContent h d = flattenEntriesWithContent h [] d ([], [])"

definition loadSnapshotWithCache :: "service \<Rightarrow> int \<Rightarrow> (error + Snapshot) \<times> service" where
  "loadSnapshotWithCache sv i =
     (case map_of (snapshotCache sv) i of
        Some cached \<Rightarrow> (Inr cached, sv)
      | None \<Rightarrow>
          (case map_of (snapshots (disk sv)) i of
             None \<Rightarrow> (Inl (FailedToLoadSnapshot i), sv)
           | Some snapshot \<Rightarrow>
               (Inr snapshot, sv\<lparr>snapshotCache := AList.update i snapshot (snapshotCache sv)\<rparr>)))"

text \<open>
  \<^verbatim>\<open>reconstructSnapshot\<close>: the \<^verbatim>\<open>while (currentId !== null)\<close> loop that builds the chain
  (bounded by the first argument), then the replay that caches every flat state.
\<close>

fun buildChain ::
  "nat \<Rightarrow> service \<Rightarrow> int option \<Rightarrow> Snapshot list \<Rightarrow> ((error + Snapshot list) \<times> service) option" where
  "buildChain 0 sv currentId snapshotChain = None"
| "buildChain (Suc n) sv currentId snapshotChain =
     (case currentId of
        None \<Rightarrow> Some (Inr snapshotChain, sv)
      | Some c \<Rightarrow>
          (case loadSnapshotWithCache sv c of
             (Inl e, sv') \<Rightarrow> Some (Inl e, sv')
           | (Inr snap, sv') \<Rightarrow> buildChain n sv' (parent snap) (snap # snapshotChain)))"

fun replayChain :: "Snapshot list \<Rightarrow> Flat \<Rightarrow> (int \<times> Flat) list \<Rightarrow> Flat \<times> (int \<times> Flat) list" where
  "replayChain [] flat cache = (flat, cache)"
| "replayChain (snap # rest) flat cache =
     (let flat' = applyChanges (changes snap) flat
      in replayChain rest flat' (AList.update (snap_id snap) flat' cache))"

definition reconstructSnapshot_async ::
  "nat \<Rightarrow> service \<Rightarrow> int \<Rightarrow> ((error + Flat) \<times> service) option" where
  "reconstructSnapshot_async n sv i =
     (case map_of (flatCache sv) i of
        Some cached \<Rightarrow> Some (Inr cached, sv)
      | None \<Rightarrow>
          (case buildChain n sv (Some i) [] of
             None \<Rightarrow> None
           | Some (Inl e, sv') \<Rightarrow> Some (Inl e, sv')
           | Some (Inr snapshotChain, sv') \<Rightarrow>
               (let (flat, cache) = replayChain snapshotChain [] (flatCache sv')
                in Some (Inr flat, sv'\<lparr>flatCache := cache\<rparr>))))"

fun processFiles ::
  "(string \<Rightarrow> string) \<Rightarrow> Flat \<Rightarrow> FileWithContent list \<Rightarrow> store \<Rightarrow> SnapshotChanges
     \<Rightarrow> SnapshotChanges \<times> store" where
  "processFiles h parentFlat [] st c = (c, st)"
| "processFiles h parentFlat ((pathKey, content, hash) # rest) st c =
     (let st' = (if readBlob st hash = None then snd (storeBlob_async h st content) else st)
      in case map_of parentFlat pathKey of
           None \<Rightarrow>
             processFiles h parentFlat rest st' (c\<lparr>added := AList.update pathKey hash (added c)\<rparr>)
         | Some parentHash \<Rightarrow>
             if parentHash \<noteq> hash
             then processFiles h parentFlat rest st'
                    (c\<lparr>modified := AList.update pathKey hash (modified c)\<rparr>)
             else processFiles h parentFlat rest st' c)"

definition createSnapshot_async ::
  "(string \<Rightarrow> string) \<Rightarrow> string \<Rightarrow> nat \<Rightarrow> service \<Rightarrow> dir \<Rightarrow> ((error + Snapshot) \<times> service) option" where
  "createSnapshot_async h now n sv dirPath =
     (let (flat, filesWithContent) = flattenDirWithContent h dirPath;
          lastId = lastSnapshotId (disk sv)
      in case (if truthy lastId
               then (let p = loadSnapshot (disk sv) (the lastId)
                     in case reconstructSnapshot_async n sv (snap_id p) of
                          None \<Rightarrow> None
                        | Some (Inl e, sv') \<Rightarrow> Some (Inl e, sv')
                        | Some (Inr parentFlat, sv') \<Rightarrow> Some (Inr (Some p, parentFlat), sv'))
               else Some (Inr (None, []), sv))
         of None \<Rightarrow> None
          | Some (Inl e, sv') \<Rightarrow> Some (Inl e, sv')
          | Some (Inr (parentSnap, parentFlat), sv') \<Rightarrow>
              (let (c, d) = processFiles h parentFlat filesWithContent (disk sv')
                              \<lparr>added = [], modified = [], deleted = []\<rparr>;
                   snapshot =
                     \<lparr>snap_id = newSnapshotId lastId, date = now,
                      parent = (case parentSnap of
                                  None \<Rightarrow> None
                                | Some p \<Rightarrow> if snap_id p \<noteq> 0 then Some (snap_id p) else None),
                      changes = c\<lparr>deleted := trackDeleted parentFlat flat\<rparr>\<rparr>
               in Some (Inr snapshot, sv'\<lparr>disk := saveSnapshot d snapshot\<rparr>)))"

definition getAllUsedBlobs :: "store \<Rightarrow> string list" where
  "getAllUsedBlobs st =
     concat (map (\<lambda>i. blobsInSnapshot (loadSnapshot st i)) (map fst (snapshots st)))"

text \<open>
  \<^verbatim>\<open>pruneSnapshot\<close> starts the rewrite of the successor's file without awaiting it and
  then reads every snapshot file to collect the blobs in use. The rewrite truncates the
  file before it fills it; \<open>tornRead\<close> says whether the read of that file falls in
  between. It then finds no valid JSON, and the call rejects with a \<^verbatim>\<open>SyntaxError\<close>
  after the record is deleted and before any blob is swept; the rewrite completes.
\<close>

definition pruneSnapshot_async :: "bool \<Rightarrow> service \<Rightarrow> int \<Rightarrow> error option \<times> service" where
  "pruneSnapshot_async tornRead sv i =
     (let snapshot = loadSnapshot (disk sv) i
      in if date snapshot = [] then (Some (SnapshotDoesNotExist i), sv)
         else
           let nextSnapshot = loadSnapshot (disk sv) (addOne i);
               d1 = (if parent nextSnapshot = Some i
                     then saveSnapshot (disk sv) (nextSnapshot\<lparr>parent := parent snapshot\<rparr>)
                     else disk sv);
               d2 = d1\<lparr>snapshots := AList.delete i (snapshots d1)\<rparr>
           in if parent nextSnapshot = Some i \<and> tornRead
              then (Some SyntaxError, sv\<lparr>disk := d2\<rparr>)
              else (None, sv\<lparr>disk := sweepBlobs (getAllUsedBlobs d2) d2\<rparr>))"

text \<open>\<^verbatim>\<open>blobSize\<close> answers from its cache, else from the file, else 0.\<close>

definition blobSize_async :: "service \<Rightarrow> string \<Rightarrow> nat \<times> service" where
  "blobSize_async sv hash =
     (case map_of (blobSizeCache sv) hash of
        Some cached \<Rightarrow> (cached, sv)
      | None \<Rightarrow>
          (case readBlob (disk sv) hash of
             None \<Rightarrow> (0, sv)
           | Some content \<Rightarrow>
               (length content,
                sv\<lparr>blobSizeCache := AList.update hash (length content) (blobSizeCache sv)\<rparr>)))"

fun sumBlobSizes_async :: "service \<Rightarrow> string list \<Rightarrow> nat \<Rightarrow> nat \<times> service" where
  "sumBlobSizes_async sv [] tot = (tot, sv)"
| "sumBlobSizes_async sv (key # keys) tot =
     (let (sz, sv') = blobSize_async sv key in sumBlobSizes_async sv' keys (tot + sz))"

definition logicalSize_async :: "nat \<Rightarrow> service \<Rightarrow> int \<Rightarrow> ((error + nat) \<times> service) option" where
  "logicalSize_async n sv snapshotId =
     (case reconstructSnapshot_async n sv snapshotId of
        None \<Rightarrow> None
      | Some (Inl e, sv') \<Rightarrow> Some (Inl e, sv')
      | Some (Inr flat, sv') \<Rightarrow>
          (let (tot, sv'') = sumBlobSizes_async sv' (map snd flat) 0 in Some (Inr tot, sv'')))"

text \<open>
  \<^verbatim>\<open>physicalSize\<close>: its inner loop \<^verbatim>\<open>while (currentSnap.parent !== null)\<close>, bounded by
  the first argument, gives \<^verbatim>\<open>isUnique\<close>.
\<close>

fun isUniqueLoop :: "nat \<Rightarrow> store \<Rightarrow> string \<Rightarrow> Snapshot \<Rightarrow> bool option" where
  "isUniqueLoop 0 st hash currentSnap = None"
| "isUniqueLoop (Suc n) st hash currentSnap =
     (case parent currentSnap of
        None \<Rightarrow> Some True
      | Some p \<Rightarrow>
          (let parentSnap = loadSnapshot st p
           in if hash \<in> set (blobsInSnapshot parentSnap) then Some False
              else isUniqueLoop n st hash parentSnap))"

fun physicalSizeLoop_async ::
  "nat \<Rightarrow> service \<Rightarrow> Snapshot \<Rightarrow> string list \<Rightarrow> nat \<Rightarrow> (nat \<times> service) option" where
  "physicalSizeLoop_async n sv snap [] totalSize = Some (totalSize, sv)"
| "physicalSizeLoop_async n sv snap (hash # hashes) totalSize =
     (case isUniqueLoop n (disk sv) hash snap of
        None \<Rightarrow> None
      | Some False \<Rightarrow> physicalSizeLoop_async n sv snap hashes totalSize
      | Some True \<Rightarrow>
          (let (sz, sv') = blobSize_async sv hash
           in physicalSizeLoop_async n sv' snap hashes (totalSize + sz)))"

definition physicalSize_async :: "nat \<Rightarrow> service \<Rightarrow> int \<Rightarrow> (nat \<times> service) option" where
  "physicalSize_async n sv snapshotId =
     (let snap = loadSnapshot (disk sv) snapshotId
      in physicalSizeLoop_async n sv snap (blobsInSnapshot snap) 0)"

section \<open>Runs of the service\<close>

text \<open>
  A run is a list of calls made one after the other on one service; \<open>assignedIds\<close>
  lists the ids its \<^verbatim>\<open>createSnapshot\<close> calls return, \<open>runOps\<close> gives the store it leaves
  and \<open>runOps_async\<close> the asynchronous service it leaves when no read of
  \<^verbatim>\<open>pruneSnapshot\<close> is torn. A call that throws leaves the store of the run as it was.
\<close>

datatype operation = Create dir string | Prune int


fun runOps :: "(string \<Rightarrow> string) \<Rightarrow> nat \<Rightarrow> store \<Rightarrow> operation list \<Rightarrow> store" where
  "runOps h n st [] = st"
| "runOps h n st (Create dirPath now # ops) =
     (case createSnapshot h now n st dirPath of
        Some (Inr (snapshot, st')) \<Rightarrow> runOps h n st' ops
      | _ \<Rightarrow> runOps h n st ops)"
| "runOps h n st (Prune i # ops) = runOps h n (snd (pruneSnapshot st i)) ops"

fun runOps_async :: "(string \<Rightarrow> string) \<Rightarrow> nat \<Rightarrow> service \<Rightarrow> operation list \<Rightarrow> service" where
  "runOps_async h n sv [] = sv"
| "runOps_async h n sv (Create dirPath now # ops) =
     (case createSnapshot_async h now n sv dirPath of
        Some (result, sv') \<Rightarrow> runOps_async h n sv' ops
      | None \<Rightarrow> runOps_async h n sv ops)"
| "runOps_async h n sv (Prune i # ops) =
     runOps_async h n (snd (pruneSnapshot_async False sv i)) ops"

definition emptyStore :: store where
  "emptyStore = \<lparr>snapshots = [], blobs = []\<rparr>"

definition freshService :: "store \<Rightarrow> service" where
  "freshService st = \<lparr>disk = st, snapshotCache = [], flatCache = [], blobSizeCache = []\<rparr>"

text \<open>
  SHA-256, hex encoded, at the contents the runs below hash: \<^verbatim>\<open>x\<close>, \<^verbatim>\<open>y\<close>, \<^verbatim>\<open>dup\<close>
  and the digests of \<^verbatim>\<open>x\<close> and \<^verbatim>\<open>y\<close>. At any other content the table answers with the digest of the empty content;
  no run below hashes one.
\<close>

definition sha256_table :: "string \<Rightarrow> string" where
  "sha256_table content =
     (if content = ''x''
      then ''2d711642b726b04401627ca9fbac32f5c8530fb1903cc4db02258717921a4881''
      else if content = ''y''
      then ''a1fce4363854ff888cff4b8e7875d600c2682390412a8cf79b37d0b11148b0fa''
      else if content = ''dup''
      then ''9eb6203435cb3e0033f544e3bf6f1b74b138c765fc489a38a092e8f7adbd9638''
      else if content = ''2d711642b726b04401627ca9fbac32f5c8530fb1903cc4db02258717921a4881''
      then ''a57b5956dbc6e02127bbb40c87cb8244196d6d18e0e141936ffcd8cffad457ad''
      else if content = ''a1fce4363854ff888cff4b8e7875d600c2682390412a8cf79b37d0b11148b0fa''
      then ''e34799c3b2e9c06f4adfbf35b01e514eaf1d4ae6f635d65221289f0a7f62bfc7''
      else ''e3b0c44298fc1c149afbf4c8996fb92427ae41e4649b934ca495991b7852b855'')"


definition twinAfterChange :: store where
  "twinAfterChange =
     runOps sha256_table 2 emptyStore
       [Create [(''a.txt'', File ''x'')] ''2025-08-20T01:39:44.176Z'',
        Create [(''a.txt'', File ''dup''), (''b.txt'', File ''dup'')]
          ''2025-08-20T01:40:44.176Z'']"

definition twinFiles :: store where
  "twinFiles =
     runOps sha256_table 1 emptyStore
       [Create [(''a.txt'', File ''dup''), (''b.txt'', File ''dup'')]
          ''2025-08-20T01:39:44.176Z'']"

section \<open>Safe runs\<close>

text \<open>
  Runs for the claim about ids. A call is safe when a \<^verbatim>\<open>createSnapshot\<close> finds a maximum
  id that is a safe integer (a magnitude below \<open>2 ^ 53\<close>, where \<^verbatim>\<open>lastId + 1\<close> is exact)
  and a \<^verbatim>\<open>pruneSnapshot\<close> does not name the maximum id persisted at that moment; a run is
  safe when each of its calls is. On the asynchronous service \<open>callAsync\<close> makes one
  call and gives the id it assigned, if any, with the service it leaves; the list
  \<open>torn\<close> says, call by call, whether the read of \<^verbatim>\<open>pruneSnapshot\<close> is torn.
\<close>

definition safeInteger :: "int \<Rightarrow> bool" where
  "safeInteger x = (\<bar>x\<bar> < 2 ^ 53)"

fun safeCall :: "store \<Rightarrow> operation \<Rightarrow> bool" where
  "safeCall st (Create dirPath now) =
     (case lastSnapshotId st of None \<Rightarrow> True | Some lastId \<Rightarrow> safeInteger lastId)"
| "safeCall st (Prune i) = (lastSnapshotId st \<noteq> Some i)"






definition beyondSafeIntegers :: store where
  "beyondSafeIntegers =
     \<lparr>snapshots =
        [(9007199254740992,
          \<lparr>snap_id = 9007199254740992, date = ''2025-08-20T01:39:44.176Z'', parent = None,
           changes = \<lparr>added = [], modified = [], deleted = []\<rparr>\<rparr>)],
      blobs = []\<rparr>"

section \<open>Ancestors and unique bytes\<close>

text \<open>
  The ancestors of a snapshot, for the claims about \<^verbatim>\<open>physicalSize\<close>: the records
  \<^verbatim>\<open>loadSnapshot\<close> gives along the parent pointers, from the pointer \<open>current\<close> on,
  for as long as \<open>follow\<close> accepts the pointer. The synchronous service follows a pointer
  that is truthy, the asynchronous one a pointer that is not \<^verbatim>\<open>null\<close>. \<open>None\<close> is a
  chain that has not ended within \<open>n\<close> records.
\<close>

fun ancestorChain ::
  "(int option \<Rightarrow> bool) \<Rightarrow> nat \<Rightarrow> store \<Rightarrow> int option \<Rightarrow> Snapshot list option" where
  "ancestorChain follow 0 st current = None"
| "ancestorChain follow (Suc n) st current =
     (if follow current
      then (case ancestorChain follow n st (parent (loadSnapshot st (the current))) of
              None \<Rightarrow> None
            | Some as \<Rightarrow> Some (loadSnapshot st (the current) # as))
      else Some [])"

definition notNull :: "int option \<Rightarrow> bool" where
  "notNull x = (x \<noteq> None)"

definition blobBytes :: "store \<Rightarrow> string \<Rightarrow> nat" where
  "blobBytes st hash = (case readBlob st hash of None \<Rightarrow> 0 | Some content \<Rightarrow> length content)"

text \<open>
  The digests of a snapshot's own delta, one for each entry of its added and of its
  modified map. A digest is held by a list of snapshots when the delta of one of them
  has it; the unseen entries of a snapshot are the digests of its delta, still one for
  each entry, that its ancestors do not hold.
\<close>

definition deltaDigests :: "Snapshot \<Rightarrow> string list" where
  "deltaDigests snap = map snd (added (changes snap)) @ map snd (modified (changes snap))"

definition heldBy :: "Snapshot list \<Rightarrow> string \<Rightarrow> bool" where
  "heldBy as hash = (hash \<in> set (concat (map deltaDigests as)))"

definition unseenEntries :: "Snapshot \<Rightarrow> Snapshot list \<Rightarrow> string list" where
  "unseenEntries snap as = filter (\<lambda>hash. \<not> heldBy as hash) (deltaDigests snap)"

text \<open>
  The physical size as C4 words it: the sum of the blob sizes over the digests, each
  digest once, of the snapshot's added and modified entries that no ancestor holds.
\<close>

definition physicalSize_spec :: "store \<Rightarrow> Snapshot \<Rightarrow> Snapshot list \<Rightarrow> nat" where
  "physicalSize_spec st snap as =
     sum_list (map (blobBytes st) (remdups (unseenEntries snap as)))"

text \<open>Every entry of the size cache holds the size of the blob now on disk.\<close>

definition sizeCacheCurrent :: "service \<Rightarrow> bool" where
  "sizeCacheCurrent sv =
     list_all (\<lambda>(hash, sz). blobBytes (disk sv) hash = sz) (blobSizeCache sv)"

text \<open>
  The shape of the snapshot directory that \<^verbatim>\<open>createSnapshot\<close> and \<^verbatim>\<open>pruneSnapshot\<close>
  keep: ids are positive, the record in the file of an id carries that id, and a parent
  pointer is smaller than the id of its record.
\<close>

definition chainOrdered :: "store \<Rightarrow> bool" where
  "chainOrdered st =
     list_all (\<lambda>(k, s). 0 < k \<and> snap_id s = k \<and> (case parent s of None \<Rightarrow> True | Some p \<Rightarrow> p < k))
       (snapshots st)"

section \<open>Missing snapshot records\<close>

text \<open>
  C10. In the synchronous service, \<^verbatim>\<open>loadSnapshot\<close> of an id with no persisted record
  returns the sentinel record (empty date, parent \<^verbatim>\<open>null\<close>, empty added, modified and
  deleted), and \<^verbatim>\<open>reconstructSnapshot\<close> of that id returns the empty flat mapping: it
  returns (any positive call depth is enough) and it does not fail.
\<close>

theorem reconstructSnapshot_missing_record:
  assumes "map_of (snapshots st) i = None"
  shows "loadSnapshot st i =
           \<lparr>snap_id = i, date = [], parent = None,
            changes = \<lparr>added = [], modified = [], deleted = []\<rparr>\<rparr>
         \<and> reconstructSnapshot (Suc n) st i = Some []"
  using assms
  by (simp add: loadSnapshot_def sentinel_def truthy_def applyChanges_def assign_def)

theorem reconstructSnapshot_missing_record_witness:
  "map_of (snapshots \<lparr>snapshots = [], blobs = []\<rparr>) 7 = None
   \<and> loadSnapshot \<lparr>snapshots = [], blobs = []\<rparr> 7 =
           \<lparr>snap_id = 7, date = [], parent = None,
            changes = \<lparr>added = [], modified = [], deleted = []\<rparr>\<rparr>
   \<and> reconstructSnapshot (Suc 0) \<lparr>snapshots = [], blobs = []\<rparr> 7 = Some []"
proof -
  have h: "map_of (snapshots \<lparr>snapshots = [], blobs = []\<rparr>) (7::int) = None"
    by simp
  from h reconstructSnapshot_missing_record [OF h, of 0] show ?thesis
    by blast
qed

text \<open>
  C8. For every store and every id with no persisted snapshot record, \<^verbatim>\<open>pruneSnapshot\<close>
  fails with the error "Snapshot with ID ... does not exist." and leaves the store as it
  was: no record rewritten or deleted, no blob deleted. Both services: the synchronous
  one on the store, the asynchronous one on its disk and its caches, whether or not a
  read would be torn.
\<close>

theorem pruneSnapshot_missing_record:
  assumes "map_of (snapshots st) i = None"
  shows "pruneSnapshot st i = (Some (SnapshotDoesNotExist i), st)
         \<and> pruneSnapshot_async tornRead
               \<lparr>disk = st, snapshotCache = sc, flatCache = fc, blobSizeCache = bc\<rparr> i
             = (Some (SnapshotDoesNotExist i),
                \<lparr>disk = st, snapshotCache = sc, flatCache = fc, blobSizeCache = bc\<rparr>)"
  using assms
  by (simp add: pruneSnapshot_def pruneSnapshot_async_def loadSnapshot_def sentinel_def)

theorem pruneSnapshot_missing_record_witness:
  "map_of (snapshots \<lparr>snapshots = [], blobs = [(''ab'', [(''cd'', ''x'')])]\<rparr>) 1 = None
   \<and> pruneSnapshot \<lparr>snapshots = [], blobs = [(''ab'', [(''cd'', ''x'')])]\<rparr> 1 =
       (Some (SnapshotDoesNotExist 1), \<lparr>snapshots = [], blobs = [(''ab'', [(''cd'', ''x'')])]\<rparr>)
   \<and> pruneSnapshot_async True
         \<lparr>disk = \<lparr>snapshots = [], blobs = [(''ab'', [(''cd'', ''x'')])]\<rparr>,
          snapshotCache = [], flatCache = [], blobSizeCache = []\<rparr> 1
       = (Some (SnapshotDoesNotExist 1),
          \<lparr>disk = \<lparr>snapshots = [], blobs = [(''ab'', [(''cd'', ''x'')])]\<rparr>,
           snapshotCache = [], flatCache = [], blobSizeCache = []\<rparr>)"
proof -
  have h: "map_of (snapshots \<lparr>snapshots = [], blobs = [(''ab'', [(''cd'', ''x'')])]\<rparr>) (1::int) = None"
    by simp
  from h pruneSnapshot_missing_record [OF h, of True "[]" "[]" "[]"] show ?thesis
    by blast
qed

text \<open>
  C7, as the source has it. For every id whose persisted record is absent,
  \<^verbatim>\<open>loadSnapshot\<close> (both services) does not fail: it returns the sentinel record.
  \<^verbatim>\<open>loadSnapshotWithCache\<close> of the asynchronous service returns the cached record when
  the id is in its snapshot cache, and fails with "Failed to load snapshot" when it is
  not.
\<close>

theorem loadSnapshot_absent_record:
  assumes "map_of (snapshots (disk sv)) i = None"
  shows "loadSnapshot (disk sv) i =
           \<lparr>snap_id = i, date = [], parent = None,
            changes = \<lparr>added = [], modified = [], deleted = []\<rparr>\<rparr>
         \<and> loadSnapshotWithCache sv i =
             (case map_of (snapshotCache sv) i of
                None \<Rightarrow> (Inl (FailedToLoadSnapshot i), sv)
              | Some cached \<Rightarrow> (Inr cached, sv))"
  using assms
  by (simp add: loadSnapshot_def sentinel_def loadSnapshotWithCache_def split: option.splits)

theorem loadSnapshot_absent_record_witness:
  "map_of (snapshots (disk (freshService emptyStore))) 7 = None
   \<and> loadSnapshot (disk (freshService emptyStore)) 7 =
           \<lparr>snap_id = 7, date = [], parent = None,
            changes = \<lparr>added = [], modified = [], deleted = []\<rparr>\<rparr>
   \<and> loadSnapshotWithCache (freshService emptyStore) 7 =
           (Inl (FailedToLoadSnapshot 7), freshService emptyStore)"
proof -
  have h: "map_of (snapshots (disk (freshService emptyStore))) (7::int) = None"
    by (simp add: freshService_def emptyStore_def)
  have c: "map_of (snapshotCache (freshService emptyStore)) (7::int) = None"
    by (simp add: freshService_def)
  from h loadSnapshot_absent_record [OF h] c show ?thesis
    by simp
qed

text \<open>
  The claim of C7 as the spec words it, "\<^verbatim>\<open>loadSnapshot(id)\<close> fails when the record is
  absent", is false on the empty store at id 7: the call returns a record.
\<close>

theorem loadSnapshot_absent_returns_sentinel:
  "map_of (snapshots emptyStore) 7 = None
   \<and> loadSnapshot emptyStore 7 =
       \<lparr>snap_id = 7, date = [], parent = None,
        changes = \<lparr>added = [], modified = [], deleted = []\<rparr>\<rparr>"
  by (simp add: emptyStore_def loadSnapshot_def sentinel_def)

section \<open>Missing blobs\<close>

text \<open>
  C9 on the synchronous service. The store holds snapshot 1, whose delta adds
  \<^verbatim>\<open>a.txt\<close> with the digest of \<^verbatim>\<open>x\<close>, and no blob. \<^verbatim>\<open>blobSize\<close> of that digest throws
  (\<^verbatim>\<open>fs.statSync\<close> on a missing file), and \<^verbatim>\<open>logicalSize\<close> and \<^verbatim>\<open>physicalSize\<close> of the
  snapshot throw with it; the asynchronous \<^verbatim>\<open>blobSize\<close> returns 0 there.
\<close>

theorem blobSize_missing_blob_throws:
  "readBlob \<lparr>snapshots = [(1, \<lparr>snap_id = 1, date = ''2025-08-20T01:39:44.176Z'', parent = None,
                    changes = \<lparr>added = [(''a.txt'', sha256_table ''x'')], modified = [],
                               deleted = []\<rparr>\<rparr>)], blobs = []\<rparr> (sha256_table ''x'') = None
   \<and> blobSize \<lparr>snapshots = [(1, \<lparr>snap_id = 1, date = ''2025-08-20T01:39:44.176Z'', parent = None,
                    changes = \<lparr>added = [(''a.txt'', sha256_table ''x'')], modified = [],
                               deleted = []\<rparr>\<rparr>)], blobs = []\<rparr> (sha256_table ''x'') = Inl ENOENT
   \<and> logicalSize 1 \<lparr>snapshots = [(1, \<lparr>snap_id = 1, date = ''2025-08-20T01:39:44.176Z'', parent = None,
                    changes = \<lparr>added = [(''a.txt'', sha256_table ''x'')], modified = [],
                               deleted = []\<rparr>\<rparr>)], blobs = []\<rparr> 1 = Some (Inl ENOENT)
   \<and> physicalSize 1 \<lparr>snapshots = [(1, \<lparr>snap_id = 1, date = ''2025-08-20T01:39:44.176Z'', parent = None,
                    changes = \<lparr>added = [(''a.txt'', sha256_table ''x'')], modified = [],
                               deleted = []\<rparr>\<rparr>)], blobs = []\<rparr> 1 = Some (Inl ENOENT)
   \<and> fst (blobSize_async (freshService \<lparr>snapshots = [(1, \<lparr>snap_id = 1, date = ''2025-08-20T01:39:44.176Z'', parent = None,
                    changes = \<lparr>added = [(''a.txt'', sha256_table ''x'')], modified = [],
                               deleted = []\<rparr>\<rparr>)], blobs = []\<rparr>) (sha256_table ''x'')) = 0"
  by (simp add: readBlob_def blobSize_def logicalSize_def physicalSize_def seenBefore_def
      loadSnapshot_def truthy_def applyChanges_def assign_def blobsInSnapshot_def
      blobSize_async_def freshService_def)

text \<open>
  The asynchronous \<^verbatim>\<open>blobSize\<close> on a digest with no stored blob: 0 when the digest is
  not in the size cache, the cached size when it is. \<^verbatim>\<open>loadContent\<close> fails on such a
  digest in both services.
\<close>

lemma blobSize_async_missing_blob:
  assumes "readBlob (disk sv) hash = None"
  shows "blobSize_async sv hash =
           (case map_of (blobSizeCache sv) hash of None \<Rightarrow> (0, sv) | Some cached \<Rightarrow> (cached, sv))"
  using assms by (simp add: blobSize_async_def split: option.splits)

lemma loadContent_missing_blob:
  assumes "readBlob st hash = None"
  shows "loadContent st hash = Inl ENOENT"
  using assms by (simp add: loadContent_def)

text \<open>
  A size that outlives its blob: one asynchronous service snapshots a directory with
  \<^verbatim>\<open>a.txt\<close>, asks for the size of its blob, and prunes the snapshot. The blob is gone and
  \<^verbatim>\<open>blobSize\<close> still answers 1.
\<close>

lemma blobSize_async_stale_cache:
  "readBlob
     (disk (snd (pruneSnapshot_async False
        (snd (blobSize_async
           (runOps_async sha256_table 1 (freshService emptyStore)
              [Create [(''a.txt'', File ''x'')] ''2025-08-20T01:39:44.176Z''])
           (sha256_table ''x''))) 1)))
     (sha256_table ''x'') = None
   \<and> fst (blobSize_async
       (snd (pruneSnapshot_async False
          (snd (blobSize_async
             (runOps_async sha256_table 1 (freshService emptyStore)
                [Create [(''a.txt'', File ''x'')] ''2025-08-20T01:39:44.176Z''])
             (sha256_table ''x''))) 1))
       (sha256_table ''x'')) = 1"
  by code_simp

section \<open>Snapshots of a directory\<close>

lemmas createSnapshot_defs =
  createSnapshot_def emptyStore_def lastSnapshotId_def truthy_def flattenDir_def
  trackDeleted_def newSnapshotId_def saveSnapshot_def loadSnapshot_def sentinel_def
  storeBlob_def readBlob_def writeBlob_def blobPath_def relPath_def assign_def
  applyChanges_def addOne_def float64_def Let_def

lemmas createSnapshot_async_defs =
  createSnapshot_async_def freshService_def emptyStore_def lastSnapshotId_def truthy_def
  flattenDirWithContent_def trackDeleted_def newSnapshotId_def saveSnapshot_def
  loadSnapshot_def sentinel_def storeBlob_async_def readBlob_def writeBlob_def blobPath_def
  relPath_def assign_def applyChanges_def reconstructSnapshot_async_def
  loadSnapshotWithCache_def addOne_def float64_def Let_def

text \<open>The first snapshot of a directory that holds the one file \<^verbatim>\<open>a.txt\<close>.\<close>

lemma createSnapshot_first:
  "createSnapshot h t1 n emptyStore [(''a.txt'', File c)] =
     Some (Inr (\<lparr>snap_id = 1, date = t1, parent = None,
                 changes = \<lparr>added = [(''a.txt'', h c)], modified = [], deleted = []\<rparr>\<rparr>,
                \<lparr>snapshots =
                   [(1, \<lparr>snap_id = 1, date = t1, parent = None,
                        changes = \<lparr>added = [(''a.txt'', h c)], modified = [],
                                   deleted = []\<rparr>\<rparr>)],
                 blobs = [(take 2 (h c), [(drop 2 (h c), c)])]\<rparr>))"
  by (simp add: createSnapshot_defs)

lemma createSnapshot_unchanged:
  "\<exists>s2 st2. createSnapshot h t2 (Suc n)
       \<lparr>snapshots =
          [(1, \<lparr>snap_id = 1, date = t1, parent = None,
               changes = \<lparr>added = [(''a.txt'', h c)], modified = [], deleted = []\<rparr>\<rparr>)],
        blobs = [(take 2 (h c), [(drop 2 (h c), c)])]\<rparr>
       [(''a.txt'', File c)] = Some (Inr (s2, st2))
     \<and> added (changes s2) = []
     \<and> modified (changes s2) = (if h (h c) = h c then [] else [(''a.txt'', h c)])
     \<and> deleted (changes s2) = []"
  by (simp add: createSnapshot_defs)

lemma createSnapshot_digest_content:
  "\<exists>s2 st2. createSnapshot h t2 (Suc n)
       \<lparr>snapshots =
          [(1, \<lparr>snap_id = 1, date = t1, parent = None,
               changes = \<lparr>added = [(''a.txt'', h c)], modified = [], deleted = []\<rparr>\<rparr>)],
        blobs = [(take 2 (h c), [(drop 2 (h c), c)])]\<rparr>
       [(''a.txt'', File (h c))] = Some (Inr (s2, st2))
     \<and> restoreSnapshot (Suc (Suc n)) st2 (snap_id s2) [] = Some (Inr [(''a.txt'', File c)])"
  by (simp add: createSnapshot_defs restoreSnapshot_def loadContent_def)

text \<open>
  C3 on the synchronous service. The directory holds the one file \<^verbatim>\<open>a.txt\<close> and is
  snapshotted twice, unchanged, from the empty store. The claim says the second delta
  omits \<^verbatim>\<open>a.txt\<close>. The second \<^verbatim>\<open>createSnapshot\<close> compares the new digest with
  \<^verbatim>\<open>hashContent(parentFlat[pathKey])\<close>, the hash of the old digest, so it records
  \<^verbatim>\<open>a.txt\<close> under modified unless hashing the digest gives the digest back. The
  asynchronous service compares the digests themselves and omits the path.
\<close>

theorem createSnapshot_unchanged_file_is_modified:
  "\<exists>s1 st1 s2 st2.
     createSnapshot h t1 n emptyStore [(''a.txt'', File c)] = Some (Inr (s1, st1))
     \<and> createSnapshot h t2 (Suc n) st1 [(''a.txt'', File c)] = Some (Inr (s2, st2))
     \<and> added (changes s2) = []
     \<and> modified (changes s2) = (if h (h c) = h c then [] else [(''a.txt'', h c)])
     \<and> deleted (changes s2) = []"
proof -
  obtain s2 st2 where
    "createSnapshot h t2 (Suc n)
       \<lparr>snapshots =
          [(1, \<lparr>snap_id = 1, date = t1, parent = None,
               changes = \<lparr>added = [(''a.txt'', h c)], modified = [], deleted = []\<rparr>\<rparr>)],
        blobs = [(take 2 (h c), [(drop 2 (h c), c)])]\<rparr>
       [(''a.txt'', File c)] = Some (Inr (s2, st2))
     \<and> added (changes s2) = []
     \<and> modified (changes s2) = (if h (h c) = h c then [] else [(''a.txt'', h c)])
     \<and> deleted (changes s2) = []"
    using createSnapshot_unchanged [of h t2 n t1 c] by blast
  with createSnapshot_first [of h t1 n c] show ?thesis
    by blast
qed

theorem createSnapshot_unchanged_file_is_modified_sha256:
  "\<exists>s1 st1 s2 st2.
     createSnapshot sha256_table ''2025-08-20T01:39:44.176Z'' 0 emptyStore
       [(''a.txt'', File ''x'')] = Some (Inr (s1, st1))
     \<and> createSnapshot sha256_table ''2025-08-20T01:40:44.176Z'' (Suc 0) st1
       [(''a.txt'', File ''x'')] = Some (Inr (s2, st2))
     \<and> added (changes s2) = []
     \<and> modified (changes s2) =
         [(''a.txt'', ''2d711642b726b04401627ca9fbac32f5c8530fb1903cc4db02258717921a4881'')]
     \<and> deleted (changes s2) = []"
  using createSnapshot_unchanged_file_is_modified
    [of sha256_table "''2025-08-20T01:39:44.176Z''" 0 "''x''" "''2025-08-20T01:40:44.176Z''"]
  by (simp add: sha256_table_def)

text \<open>
  The asynchronous service on the same two snapshots: its second delta is empty.
\<close>

lemma createSnapshot_async_first:
  "createSnapshot_async h t1 n (freshService emptyStore) [(''a.txt'', File c)] =
     Some (Inr \<lparr>snap_id = 1, date = t1, parent = None,
                changes = \<lparr>added = [(''a.txt'', h c)], modified = [], deleted = []\<rparr>\<rparr>,
           freshService
             \<lparr>snapshots =
                [(1, \<lparr>snap_id = 1, date = t1, parent = None,
                     changes = \<lparr>added = [(''a.txt'', h c)], modified = [],
                                deleted = []\<rparr>\<rparr>)],
              blobs = [(take 2 (h c), [(drop 2 (h c), c)])]\<rparr>)"
  by (simp add: createSnapshot_async_defs)

lemma createSnapshot_async_unchanged_file_is_omitted:
  "\<exists>sv2. createSnapshot_async h t2 (Suc (Suc n))
       (freshService
          \<lparr>snapshots =
             [(1, \<lparr>snap_id = 1, date = t1, parent = None,
                  changes = \<lparr>added = [(''a.txt'', h c)], modified = [],
                             deleted = []\<rparr>\<rparr>)],
           blobs = [(take 2 (h c), [(drop 2 (h c), c)])]\<rparr>)
       [(''a.txt'', File c)] =
     Some (Inr \<lparr>snap_id = 2, date = t2, parent = Some 1,
                changes = \<lparr>added = [], modified = [], deleted = []\<rparr>\<rparr>, sv2)"
  by (simp add: createSnapshot_async_defs)

text \<open>
  C1 on the synchronous service. The directory holds the one file \<^verbatim>\<open>a.txt\<close> with
  content \<open>c\<close> at the first snapshot and with content \<open>h c\<close>, the hex digest of \<open>c\<close>, at
  the second. For the second snapshot \<^verbatim>\<open>hashContent(parentFlat[pathKey])\<close> hashes the
  very bytes the file now holds, so the path is left out of the delta, and restoring the
  second snapshot into an empty directory writes \<^verbatim>\<open>a.txt\<close> with the old content \<open>c\<close>.
\<close>

theorem restoreSnapshot_writes_previous_content:
  "\<exists>s1 st1 s2 st2.
     createSnapshot h t1 n emptyStore [(''a.txt'', File c)] = Some (Inr (s1, st1))
     \<and> createSnapshot h t2 (Suc n) st1 [(''a.txt'', File (h c))] = Some (Inr (s2, st2))
     \<and> restoreSnapshot (Suc (Suc n)) st2 (snap_id s2) [] = Some (Inr [(''a.txt'', File c)])"
proof -
  obtain s2 st2 where
    "createSnapshot h t2 (Suc n)
       \<lparr>snapshots =
          [(1, \<lparr>snap_id = 1, date = t1, parent = None,
               changes = \<lparr>added = [(''a.txt'', h c)], modified = [], deleted = []\<rparr>\<rparr>)],
        blobs = [(take 2 (h c), [(drop 2 (h c), c)])]\<rparr>
       [(''a.txt'', File (h c))] = Some (Inr (s2, st2))
     \<and> restoreSnapshot (Suc (Suc n)) st2 (snap_id s2) [] = Some (Inr [(''a.txt'', File c)])"
    using createSnapshot_digest_content [of h t2 n t1 c] by blast
  with createSnapshot_first [of h t1 n c] show ?thesis
    by blast
qed

theorem restoreSnapshot_writes_previous_content_sha256:
  "\<exists>s1 st1 s2 st2.
     createSnapshot sha256_table ''2025-08-20T01:39:44.176Z'' 0 emptyStore
       [(''a.txt'', File ''x'')] = Some (Inr (s1, st1))
     \<and> createSnapshot sha256_table ''2025-08-20T01:40:44.176Z'' (Suc 0) st1
       [(''a.txt'',
         File ''2d711642b726b04401627ca9fbac32f5c8530fb1903cc4db02258717921a4881'')]
       = Some (Inr (s2, st2))
     \<and> restoreSnapshot (Suc (Suc 0)) st2 (snap_id s2) [] = Some (Inr [(''a.txt'', File ''x'')])"
  using restoreSnapshot_writes_previous_content
    [of sha256_table "''2025-08-20T01:39:44.176Z''" 0 "''x''" "''2025-08-20T01:40:44.176Z''"]
  by (simp add: sha256_table_def)

section \<open>Pruning\<close>

text \<open>
  C2. On the synchronous service, from the empty store: snapshot 1 of a directory with
  \<^verbatim>\<open>a.txt\<close> and \<^verbatim>\<open>b.txt\<close>, then snapshots 2 and 3 of the directory with \<^verbatim>\<open>a.txt\<close> only.
  Snapshot 3 reconstructs to \<^verbatim>\<open>a.txt\<close> alone. \<^verbatim>\<open>pruneSnapshot(2)\<close> succeeds and links
  snapshot 3 to snapshot 1, and the deletion of \<^verbatim>\<open>b.txt\<close> that snapshot 2 recorded is
  gone with it: snapshot 3 now reconstructs to \<^verbatim>\<open>a.txt\<close> and \<^verbatim>\<open>b.txt\<close>, where the claim
  says it reconstructs as before. On the asynchronous service, whose deltas hold only
  what changed: snapshot 1 of \<^verbatim>\<open>a.txt\<close>, then snapshots 2 and 3 of \<^verbatim>\<open>a.txt\<close> and
  \<^verbatim>\<open>b.txt\<close>. After \<^verbatim>\<open>pruneSnapshot(2)\<close> a fresh service reconstructs snapshot 3 without
  \<^verbatim>\<open>b.txt\<close>, and the blob of \<^verbatim>\<open>b.txt\<close> is deleted.
\<close>

theorem pruneSnapshot_changes_reconstruction:
  "reconstructSnapshot 3
     (runOps sha256_table 3 emptyStore
        [Create [(''a.txt'', File ''x''), (''b.txt'', File ''y'')] ''2025-08-20T01:39:44.176Z'',
         Create [(''a.txt'', File ''x'')] ''2025-08-20T01:40:44.176Z'',
         Create [(''a.txt'', File ''x'')] ''2025-08-20T01:41:44.176Z'']) 3
     = Some [(''a.txt'', sha256_table ''x'')]
   \<and> fst (pruneSnapshot
       (runOps sha256_table 3 emptyStore
        [Create [(''a.txt'', File ''x''), (''b.txt'', File ''y'')] ''2025-08-20T01:39:44.176Z'',
         Create [(''a.txt'', File ''x'')] ''2025-08-20T01:40:44.176Z'',
         Create [(''a.txt'', File ''x'')] ''2025-08-20T01:41:44.176Z'']) 2) = None
   \<and> reconstructSnapshot 3
     (runOps sha256_table 3 emptyStore
        [Create [(''a.txt'', File ''x''), (''b.txt'', File ''y'')] ''2025-08-20T01:39:44.176Z'',
         Create [(''a.txt'', File ''x'')] ''2025-08-20T01:40:44.176Z'',
         Create [(''a.txt'', File ''x'')] ''2025-08-20T01:41:44.176Z'',
         Prune 2]) 3
     = Some [(''a.txt'', sha256_table ''x''), (''b.txt'', sha256_table ''y'')]
   \<and> map_option fst (reconstructSnapshot_async 4
     (freshService (disk (runOps_async sha256_table 4 (freshService emptyStore)
        [Create [(''a.txt'', File ''x'')] ''2025-08-20T01:39:44.176Z'',
         Create [(''a.txt'', File ''x''), (''b.txt'', File ''y'')] ''2025-08-20T01:40:44.176Z'',
         Create [(''a.txt'', File ''x''), (''b.txt'', File ''y'')] ''2025-08-20T01:41:44.176Z'']))) 3)
     = Some (Inr [(''a.txt'', sha256_table ''x''), (''b.txt'', sha256_table ''y'')])
   \<and> fst (pruneSnapshot_async False
       (runOps_async sha256_table 4 (freshService emptyStore)
        [Create [(''a.txt'', File ''x'')] ''2025-08-20T01:39:44.176Z'',
         Create [(''a.txt'', File ''x''), (''b.txt'', File ''y'')] ''2025-08-20T01:40:44.176Z'',
         Create [(''a.txt'', File ''x''), (''b.txt'', File ''y'')] ''2025-08-20T01:41:44.176Z'']) 2)
     = None
   \<and> map_option fst (reconstructSnapshot_async 4
     (freshService (disk (runOps_async sha256_table 4 (freshService emptyStore)
        [Create [(''a.txt'', File ''x'')] ''2025-08-20T01:39:44.176Z'',
         Create [(''a.txt'', File ''x''), (''b.txt'', File ''y'')] ''2025-08-20T01:40:44.176Z'',
         Create [(''a.txt'', File ''x''), (''b.txt'', File ''y'')] ''2025-08-20T01:41:44.176Z'',
         Prune 2]))) 3)
     = Some (Inr [(''a.txt'', sha256_table ''x'')])
   \<and> readBlob (disk (runOps_async sha256_table 4 (freshService emptyStore)
        [Create [(''a.txt'', File ''x'')] ''2025-08-20T01:39:44.176Z'',
         Create [(''a.txt'', File ''x''), (''b.txt'', File ''y'')] ''2025-08-20T01:40:44.176Z'',
         Create [(''a.txt'', File ''x''), (''b.txt'', File ''y'')] ''2025-08-20T01:41:44.176Z'',
         Prune 2])) (sha256_table ''y'') = None"
  by code_simp

text \<open>
  C5. From the empty store: three snapshots of a directory, then \<^verbatim>\<open>pruneSnapshot(2)\<close>,
  which links snapshot 3 to snapshot 1. Snapshot 1 exists, its parent is \<^verbatim>\<open>null\<close> and its
  successor is snapshot 3. \<^verbatim>\<open>pruneSnapshot(1)\<close> succeeds and looks for the successor at
  id 2 only: it removes record 1 and leaves the parent of snapshot 3 at 1, where the
  claim says \<^verbatim>\<open>null\<close>. Both services.
\<close>

theorem pruneSnapshot_skips_successor:
  "parent (loadSnapshot
     (runOps sha256_table 3 emptyStore
        [Create [(''a.txt'', File ''x'')] ''2025-08-20T01:39:44.176Z'',
         Create [(''a.txt'', File ''x'')] ''2025-08-20T01:40:44.176Z'',
         Create [(''a.txt'', File ''x'')] ''2025-08-20T01:41:44.176Z'',
         Prune 2]) 3) = Some 1
   \<and> map_option parent (map_of (snapshots
     (runOps sha256_table 3 emptyStore
        [Create [(''a.txt'', File ''x'')] ''2025-08-20T01:39:44.176Z'',
         Create [(''a.txt'', File ''x'')] ''2025-08-20T01:40:44.176Z'',
         Create [(''a.txt'', File ''x'')] ''2025-08-20T01:41:44.176Z'',
         Prune 2])) 1) = Some None
   \<and> fst (pruneSnapshot
     (runOps sha256_table 3 emptyStore
        [Create [(''a.txt'', File ''x'')] ''2025-08-20T01:39:44.176Z'',
         Create [(''a.txt'', File ''x'')] ''2025-08-20T01:40:44.176Z'',
         Create [(''a.txt'', File ''x'')] ''2025-08-20T01:41:44.176Z'',
         Prune 2]) 1) = None
   \<and> map_option parent (map_of (snapshots
     (runOps sha256_table 3 emptyStore
        [Create [(''a.txt'', File ''x'')] ''2025-08-20T01:39:44.176Z'',
         Create [(''a.txt'', File ''x'')] ''2025-08-20T01:40:44.176Z'',
         Create [(''a.txt'', File ''x'')] ''2025-08-20T01:41:44.176Z'',
         Prune 2, Prune 1])) 3) = Some (Some 1)
   \<and> map_of (snapshots
     (runOps sha256_table 3 emptyStore
        [Create [(''a.txt'', File ''x'')] ''2025-08-20T01:39:44.176Z'',
         Create [(''a.txt'', File ''x'')] ''2025-08-20T01:40:44.176Z'',
         Create [(''a.txt'', File ''x'')] ''2025-08-20T01:41:44.176Z'',
         Prune 2, Prune 1])) 1 = None
   \<and> map_option parent (map_of (snapshots (disk
     (runOps_async sha256_table 3 (freshService emptyStore)
        [Create [(''a.txt'', File ''x'')] ''2025-08-20T01:39:44.176Z'',
         Create [(''a.txt'', File ''x'')] ''2025-08-20T01:40:44.176Z'',
         Create [(''a.txt'', File ''x'')] ''2025-08-20T01:41:44.176Z'',
         Prune 2, Prune 1]))) 3) = Some (Some 1)
   \<and> map_of (snapshots (disk
     (runOps_async sha256_table 3 (freshService emptyStore)
        [Create [(''a.txt'', File ''x'')] ''2025-08-20T01:39:44.176Z'',
         Create [(''a.txt'', File ''x'')] ''2025-08-20T01:40:44.176Z'',
         Create [(''a.txt'', File ''x'')] ''2025-08-20T01:41:44.176Z'',
         Prune 2, Prune 1]))) 1 = None"
  by code_simp

text \<open>
  What \<^verbatim>\<open>pruneSnapshot\<close> does to the blobs (the subdirectories of \<^verbatim>\<open>BLOBS_DIR\<close> have
  distinct names): after a prune that succeeds, a digest has its blob stored exactly
  when it had one before and an added or modified entry of a remaining snapshot holds
  it, and the blob's bytes are the ones stored before.
\<close>

lemma map_of_filter_key:
  "map_of (filter (\<lambda>(k, v). P k) al) k = (if P k then map_of al k else None)"
  by (induction al) auto

lemma map_of_sweep:
  assumes "distinct (map fst bl)"
  shows "map_of (filter (\<lambda>(subdir, files). files \<noteq> [])
                  (map (\<lambda>(subdir, files). (subdir, filter (\<lambda>(file, content). subdir @ file \<in> U) files)) bl)) k
         = (case map_of bl k of
              None \<Rightarrow> None
            | Some files \<Rightarrow>
                if filter (\<lambda>(file, content). k @ file \<in> U) files = [] then None
                else Some (filter (\<lambda>(file, content). k @ file \<in> U) files))"
  using assms
proof (induction bl)
  case Nil
  then show ?case by simp
next
  case (Cons e bl)
  obtain sd fs where e: "e = (sd, fs)" by (cases e)
  from Cons.prems e have notin: "map_of bl sd = None"
    by (simp add: map_of_eq_None_iff)
  from Cons e notin show ?case by auto
qed

lemma readBlob_sweepBlobs:
  assumes "distinct (map fst (blobs st))"
  shows "readBlob (sweepBlobs U st) hash = (if hash \<in> set U then readBlob st hash else None)"
proof -
  let ?k = "take 2 hash" and ?f = "drop 2 hash"
  let ?keep = "filter (\<lambda>(file, content). ?k @ file \<in> set U)"
  have inner: "map_of (?keep files) ?f = (if hash \<in> set U then map_of files ?f else None)"
    for files :: "(string \<times> string) list"
    using map_of_filter_key [of "\<lambda>file. ?k @ file \<in> set U" files ?f] by simp
  have swept: "map_of (blobs (sweepBlobs U st)) ?k =
      (case map_of (blobs st) ?k of
         None \<Rightarrow> None
       | Some files \<Rightarrow> if ?keep files = [] then None else Some (?keep files))"
    using map_of_sweep [OF assms, of "set U" ?k] by (simp add: sweepBlobs_def)
  show ?thesis
  proof (cases "map_of (blobs st) ?k")
    case None
    with swept show ?thesis by (simp add: readBlob_def blobPath_def)
  next
    case (Some files)
    show ?thesis
    proof (cases "?keep files = []")
      case True
      with inner [of files] have "(if hash \<in> set U then map_of files ?f else None) = None"
        by simp
      with swept Some True show ?thesis by (auto simp: readBlob_def blobPath_def split: if_splits)
    next
      case False
      with swept Some inner [of files] show ?thesis by (simp add: readBlob_def blobPath_def)
    qed
  qed
qed

lemma listSnapshots_blobs:
  "set (concat (map blobsInSnapshot (listSnapshots st))) = set (getAllUsedBlobs st)"
  by (auto simp: listSnapshots_def getAllUsedBlobs_def blobsInSnapshot_def)

lemma pruneSnapshot_blobs:
  assumes "distinct (map fst (blobs st))" and "pruneSnapshot st i = (None, st')"
  shows "readBlob st' hash = (if hash \<in> set (getAllUsedBlobs st') then readBlob st hash else None)"
proof -
  define st1 where "st1 = (if parent (loadSnapshot st (addOne i)) = Some i
      then saveSnapshot st ((loadSnapshot st (addOne i))\<lparr>parent := parent (loadSnapshot st i)\<rparr>)
      else st)"
  define st2 where "st2 = st1\<lparr>snapshots := AList.delete i (snapshots st1)\<rparr>"
  from assms(2) have st': "st' = sweepBlobs (concat (map blobsInSnapshot (listSnapshots st2))) st2"
    by (simp add: pruneSnapshot_def Let_def st1_def st2_def split: if_splits)
  have b2: "blobs st2 = blobs st"
    by (simp add: st2_def st1_def saveSnapshot_def)
  have s': "snapshots st' = snapshots st2"
    by (simp add: st' sweepBlobs_def)
  then have used: "getAllUsedBlobs st' = getAllUsedBlobs st2"
    by (simp add: getAllUsedBlobs_def loadSnapshot_def)
  have r2: "readBlob st2 hash = readBlob st hash"
    by (simp add: readBlob_def b2)
  from assms(1) b2 have "distinct (map fst (blobs st2))" by simp
  from readBlob_sweepBlobs [OF this] st' listSnapshots_blobs [of st2] used r2
  show ?thesis by simp
qed

section \<open>Snapshot ids\<close>














lemma runOps_Create:
  "runOps h n st [Create d now] =
     (case createSnapshot h now n st d of Some (Inr (s, st')) \<Rightarrow> st' | _ \<Rightarrow> st)"
  by (simp split: option.splits sum.splits)















text \<open>
  Beyond the safe integers the sum \<^verbatim>\<open>lastId + 1\<close> is rounded: with the one record
  \<^verbatim>\<open>9007199254740992.json\<close> persisted, \<^verbatim>\<open>createSnapshot\<close> assigns the id
  \<open>9007199254740992\<close> again, names the record as its own parent and overwrites it.
\<close>

lemma createSnapshot_beyond_safe_integers:
  "\<not> safeCall beyondSafeIntegers (Create [] ''2025-08-20T01:40:44.176Z'')"
  "map_option (map_sum id (\<lambda>(s, st'). (snap_id s, parent s, map fst (snapshots st'))))
     (createSnapshot sha256_table ''2025-08-20T01:40:44.176Z'' 2 beyondSafeIntegers [])
   = Some (Inr (9007199254740992, Some 9007199254740992, [9007199254740992]))"
  "map_option (map_prod (map_sum id (\<lambda>s. (snap_id s, parent s))) (\<lambda>sv'. map fst (snapshots (disk sv'))))
     (createSnapshot_async sha256_table ''2025-08-20T01:40:44.176Z'' 2
        (freshService beyondSafeIntegers) [])
   = Some (Inr (9007199254740992, Some 9007199254740992), [9007199254740992])"
  by code_simp+


end
